theory Spec2Isabelle
  imports Main "HOL-Library.Sublist"
begin

section \<open>Data model (types/database)\<close>

text \<open>
  The row types of the remote store, as the TypeScript interfaces declare them.
  Row ids and user ids are strings. \<open>created_at\<close> is a timestamp that the
  remote store orders by its value; it is modelled as a natural number (the instant).
  The optional joined profiles (\<open>requester?\<close>, \<open>sender?\<close>, ...) are display data and
  are left out.
\<close>

text \<open>
  The text of a message is a JavaScript string that the user types: a sequence of
  UTF-16 code units, here natural numbers (below 65536). \<open>utf16\<close> gives the code
  units of an ASCII literal. Ids, MIME types and the fixed texts of the program are
  kept as strings.
\<close>

type_synonym js_text = "nat list"

definition utf16 :: "string \<Rightarrow> js_text" where
  "utf16 s = map of_char s"

datatype friendship_status = Pending | Accepted | Rejected

record friendship =
  f_id :: string
  requester_id :: string
  addressee_id :: string
  status :: friendship_status
  f_created_at :: nat

datatype media_kind = Image | Video | File | Gif

record message =
  m_id :: string
  sender_id :: string
  receiver_id :: string
  content :: "js_text option"
  media_url :: "string option"
  media_type :: "media_kind option"
  file_name :: "string option"
  m_read :: bool
  m_created_at :: nat

datatype notification_type = Friend_request | Message_note | Friend_accepted

record notification =
  n_id :: string
  user_id :: string
  n_type :: notification_type
  n_content :: string
  related_id :: "string option"
  n_read :: bool
  n_created_at :: nat

text \<open>The browser's \<open>File\<close>: only its name and its MIME type are read by the chat window.\<close>

record js_file =
  file_name_of :: string
  file_type :: string

text \<open>The signed-in user of the auth context: its id and its optional e-mail address.\<close>

record auth_user =
  u_id :: string
  email :: "string option"

text \<open>A toast shown to the user: the way every action reports its outcome.\<close>

datatype toast_variant = Default | Destructive

record toast =
  title :: string
  description :: string
  variant :: toast_variant

section \<open>The remote store as the client sees it\<close>

text \<open>
  The three tables the client reads and writes, and the storage bucket
  \<open>chat-media\<close> with its objects (path and file). The client reaches the tables
  through the query builder only: \<open>insert\<close> adds a row (the store assigns id and
  \<open>created_at\<close>), \<open>update(...).eq(...)\<close> rewrites the rows that match its filter,
  \<open>select\<close> returns the rows that match its filter. No call of the client deletes a
  row or an object.
\<close>

record remote_store =
  friendships :: "friendship list"
  messages_table :: "message list"
  notifications_table :: "notification list"
  chat_media :: "(string \<times> js_file) list"

text \<open>
  What the surroundings decide during one user action: for each remote call the error
  it answers with, if any (the \<open>error\<close> member of the call's result, here its
  message), the public base URL of the bucket, the ids the store assigns to inserted
  rows, the store's clock, and the client's clock (\<open>Date.now()\<close>).
\<close>

record remote_env =
  lookup_fault :: "string option"
  write_fault :: "string option"
  notify_fault :: "string option"
  notifs_fault :: "string option"
  requests_fault :: "string option"
  upload_fault :: "string option"
  storage_url :: string
  date_now :: nat
  new_row_id :: string
  new_notification_id :: string
  now :: nat

definition error_toast :: "string \<Rightarrow> toast" where
  "error_toast msg = \<lparr>title = ''Error'', description = msg, variant = Destructive\<rparr>"

text \<open>
  \<open>supabase.from('notifications').insert({...})\<close>: the row is stored with
  \<open>read = false\<close> unless the call fails; the call returns its error instead of
  throwing.
\<close>

definition insert_notification ::
  "remote_env \<Rightarrow> string \<Rightarrow> notification_type \<Rightarrow> string \<Rightarrow> string option \<Rightarrow> remote_store
     \<Rightarrow> string option \<times> remote_store" where
  "insert_notification env owner kind txt rel db =
     (case notify_fault env of
        Some e \<Rightarrow> (Some e, db)
      | None \<Rightarrow>
          (None, db\<lparr>notifications_table := notifications_table db @
             [\<lparr>n_id = new_notification_id env, user_id = owner, n_type = kind,
               n_content = txt, related_id = rel, n_read = False,
               n_created_at = now env\<rparr>]\<rparr>))"

section \<open>ChatWindow: media kind of an attachment\<close>

text \<open>\<open>String.prototype.startsWith\<close>.\<close>

definition startsWith :: "string \<Rightarrow> string \<Rightarrow> bool" where
  "startsWith s p = prefix p s"

definition getMediaType :: "js_file \<Rightarrow> media_kind" where
  "getMediaType fl =
     (if file_type fl = ''image/gif'' then Gif
      else if startsWith (file_type fl) ''image/'' then Image
      else if startsWith (file_type fl) ''video/'' then Video
      else File)"

section \<open>ChatWindow: state, feed subscription, sending\<close>

text \<open>
  The component state (\<open>messages\<close>, \<open>newMessage\<close>, \<open>selectedFile\<close>,
  \<open>loading\<close>) together with the realtime client's live channels and the channel
  captured by the cleanup closure that the subscription effect returned. The preview
  URL and the DOM refs are display state and are left out.
\<close>

datatype event_type = INSERT | UPDATE | DELETE

record channel =
  ch_event :: event_type
  ch_user :: string
  ch_friend :: string

record change_event =
  eventType :: event_type
  payload_new :: message

record chat_window =
  messages :: "message list"
  newMessage :: js_text
  selectedFile :: "js_file option"
  loading :: bool
  channels :: "channel list"
  cleanup :: "channel option"

text \<open>
  The subscription's row filter:
  \<open>or(and(sender_id=eq.user,receiver_id=eq.friend),and(sender_id=eq.friend,receiver_id=eq.user))\<close>.
\<close>

definition conversation_filter :: "string \<Rightarrow> string \<Rightarrow> message \<Rightarrow> bool" where
  "conversation_filter u f m \<longleftrightarrow>
     (sender_id m = u \<and> receiver_id m = f) \<or> (sender_id m = f \<and> receiver_id m = u)"

text \<open>
  The updater that the feed handler passes to \<open>setMessages\<close>:
  \<open>prev.some(m => m.id === newMsg.id) ? prev : [...prev, newMsg]\<close>.
\<close>

definition feed_insert_handler :: "message \<Rightarrow> message list \<Rightarrow> message list" where
  "feed_insert_handler newMsg prev =
     (if list_ex (\<lambda>m. m_id m = m_id newMsg) prev then prev else prev @ [newMsg])"

text \<open>
  A channel hands an event to its handler when the event's type is the one the channel
  was registered for and the row passes the channel's filter.
\<close>

definition channel_receive :: "channel \<Rightarrow> change_event \<Rightarrow> message list \<Rightarrow> message list" where
  "channel_receive ch ev prev =
     (if eventType ev = ch_event ch \<and>
         conversation_filter (ch_user ch) (ch_friend ch) (payload_new ev)
      then feed_insert_handler (payload_new ev) prev else prev)"

text \<open>One change event of the messages table reaches every live channel of the client.\<close>

definition deliver :: "change_event \<Rightarrow> chat_window \<Rightarrow> chat_window" where
  "deliver ev w =
     w\<lparr>messages := foldl (\<lambda>log ch. channel_receive ch ev log) (messages w) (channels w)\<rparr>"

definition deliver_all :: "change_event list \<Rightarrow> chat_window \<Rightarrow> chat_window" where
  "deliver_all evs w = foldl (\<lambda>w' ev. deliver ev w') w evs"

text \<open>The events that the channel of the conversation of \<open>u\<close> and \<open>f\<close> hands on.\<close>

definition event_applied :: "string \<Rightarrow> string \<Rightarrow> change_event \<Rightarrow> bool" where
  "event_applied u f ev \<longleftrightarrow>
     eventType ev = INSERT \<and> conversation_filter u f (payload_new ev)"

text \<open>The component's state at mount: the initial values of its \<open>useState\<close> hooks.\<close>

definition initial_window :: chat_window where
  "initial_window =
     \<lparr>messages = [], newMessage = [], selectedFile = None, loading = False,
      channels = [], cleanup = None\<rparr>"

text \<open>
  The subscription effect of the component, with dependencies \<open>[user, friend]\<close>.
  Its body subscribes a channel for INSERT events of the conversation and returns a
  cleanup that removes that channel; without a user or a friend it returns no cleanup.
  When a dependency changes, the cleanup of the previous run is executed, then the body
  runs again. (The body also starts \<open>fetchMessages\<close>, whose result arrives later and
  replaces the log; it is not a feed event.)
\<close>

definition effect_cleanup :: "chat_window \<Rightarrow> chat_window" where
  "effect_cleanup w =
     (case cleanup w of
        None \<Rightarrow> w
      | Some ch \<Rightarrow> w\<lparr>channels := remove1 ch (channels w), cleanup := None\<rparr>)"

definition effect_body :: "auth_user option \<Rightarrow> string option \<Rightarrow> chat_window \<Rightarrow> chat_window" where
  "effect_body user friend w =
     (case user of
        None \<Rightarrow> w\<lparr>cleanup := None\<rparr>
      | Some u \<Rightarrow>
          (case friend of
             None \<Rightarrow> w\<lparr>cleanup := None\<rparr>
           | Some f \<Rightarrow>
               (let ch = \<lparr>ch_event = INSERT, ch_user = u_id u, ch_friend = f\<rparr>
                in w\<lparr>channels := channels w @ [ch], cleanup := Some ch\<rparr>)))"

definition open_conversation ::
  "auth_user option \<Rightarrow> string option \<Rightarrow> chat_window \<Rightarrow> chat_window" where
  "open_conversation user friend w = effect_body user friend (effect_cleanup w)"

text \<open>
  \<open>fetchMessages\<close>, at the moment its query answers: the log is replaced by the rows
  of the conversation in ascending order of \<open>created_at\<close>, then the unread messages
  of the friend are marked as read (the result of that update is not looked at). A
  failing query is logged and changes nothing.
\<close>

definition fetchMessages ::
  "remote_env \<Rightarrow> auth_user option \<Rightarrow> string option \<Rightarrow> chat_window \<Rightarrow> remote_store
     \<Rightarrow> chat_window \<times> remote_store" where
  "fetchMessages env user friend w db =
     (case user of
        None \<Rightarrow> (w, db)
      | Some u \<Rightarrow>
          (case friend of
             None \<Rightarrow> (w, db)
           | Some f \<Rightarrow>
               (case lookup_fault env of
                  Some e \<Rightarrow> (w, db)
                | None \<Rightarrow>
                    (w\<lparr>messages := sort_key m_created_at
                         (filter (conversation_filter (u_id u) f) (messages_table db))\<rparr>,
                     case write_fault env of
                       Some e \<Rightarrow> db
                     | None \<Rightarrow>
                         db\<lparr>messages_table :=
                              map (\<lambda>m. if sender_id m = f \<and> receiver_id m = u_id u \<and>
                                          m_read m = False
                                       then m\<lparr>m_read := True\<rparr> else m)
                                (messages_table db)\<rparr>))))"

text \<open>
  \<open>String.prototype.trim\<close> strips the white space and line terminator code units
  of the language from both ends: TAB, LF, VT, FF, CR, space, U+00A0, U+1680,
  U+2000 to U+200A, U+2028, U+2029, U+202F, U+205F, U+3000 and U+FEFF.
\<close>

definition is_space :: "nat \<Rightarrow> bool" where
  "is_space c \<longleftrightarrow>
     c \<in> set [0x09, 0x0A, 0x0B, 0x0C, 0x0D, 0x20, 0xA0, 0x1680, 0x2028, 0x2029, 0x202F,
              0x205F, 0x3000, 0xFEFF] \<or>
     (0x2000 \<le> c \<and> c \<le> 0x200A)"

definition trim :: "js_text \<Rightarrow> js_text" where
  "trim s = rev (dropWhile is_space (rev (dropWhile is_space s)))"

text \<open>\<open>user.email?.split('@')[0]\<close> inside a template literal.\<close>

definition email_name :: "auth_user \<Rightarrow> string" where
  "email_name u =
     (case email u of
        None \<Rightarrow> ''undefined''
      | Some e \<Rightarrow> takeWhile (\<lambda>c. c \<noteq> CHR ''@'') e)"

text \<open>
  The decimal digits of a number, as a template literal prints \<open>Date.now()\<close>, and
  \<open>file.name.split('.').pop()\<close>: what follows the last dot of the name, or the whole
  name when it has no dot.
\<close>

definition digit_char :: "nat \<Rightarrow> char" where
  "digit_char d = ''0123456789'' ! d"

fun string_of_nat :: "nat \<Rightarrow> string" where
  "string_of_nat n =
     (if n < 10 then [digit_char n]
      else string_of_nat (n div 10) @ [digit_char (n mod 10)])"

declare string_of_nat.simps [simp del]

definition file_ext :: "string \<Rightarrow> string" where
  "file_ext name = rev (takeWhile (\<lambda>c. c \<noteq> CHR ''.'') (rev name))"

text \<open>
  \<open>uploadFile\<close>: the object is stored under the path
  \<open>user id/Date.now().extension\<close>. When the storage call fails, the function logs
  the error and returns null and nothing is stored; otherwise the object is in the
  bucket and the function returns its public URL. The result is the URL, if any, and the
  store.
\<close>

definition uploadFile ::
  "remote_env \<Rightarrow> auth_user \<Rightarrow> js_file \<Rightarrow> remote_store \<Rightarrow> string option \<times> remote_store" where
  "uploadFile env user fl db =
     (let fileExt = file_ext (file_name_of fl);
          fileName = u_id user @ ''/'' @ string_of_nat (date_now env) @ ''.'' @ fileExt
      in case upload_fault env of
           Some e \<Rightarrow> (None, db)
         | None \<Rightarrow>
             (Some (storage_url env @ fileName),
              db\<lparr>chat_media := chat_media db @ [(fileName, fl)]\<rparr>))"

text \<open>
  \<open>sendMessage\<close> up to the point where the insert call has answered: the upload of
  the attachment, if there is one, and the insert of the message row. An exception
  thrown in this part is the \<open>Inl\<close> result, with the exception's message; an object
  uploaded before a failing insert stays in the bucket.
\<close>

definition sendMessage_write ::
  "remote_env \<Rightarrow> auth_user \<Rightarrow> string \<Rightarrow> chat_window \<Rightarrow> remote_store
     \<Rightarrow> (string + message) \<times> remote_store" where
  "sendMessage_write env user friend w db =
     (let (media, db1) =
        (case selectedFile w of
           None \<Rightarrow> (Inr (None, None, None), db)
         | Some fl \<Rightarrow>
             (case uploadFile env user fl db of
                (None, db') \<Rightarrow> (Inl ''Failed to upload file'', db')
              | (Some mediaUrl, db') \<Rightarrow>
                  if mediaUrl = [] then (Inl ''Failed to upload file'', db')
                  else (Inr (Some mediaUrl, Some (getMediaType fl), Some (file_name_of fl)),
                        db')))
      in case media of
           Inl msg \<Rightarrow> (Inl msg, db1)
         | Inr (mediaUrl, mediaType, fileName) \<Rightarrow>
             (case write_fault env of
                Some e \<Rightarrow> (Inl e, db1)
              | None \<Rightarrow>
                  (let data = \<lparr>m_id = new_row_id env, sender_id = u_id user,
                         receiver_id = friend,
                         content = (if trim (newMessage w) = [] then None
                                    else Some (trim (newMessage w))),
                         media_url = mediaUrl, media_type = mediaType,
                         file_name = fileName, m_read = False,
                         m_created_at = now env\<rparr>
                   in (Inr data, db1\<lparr>messages_table := messages_table db1 @ [data]\<rparr>))))"

text \<open>
  \<open>sendMessage\<close> after the insert call has answered with the persisted row: the row
  is appended to the local log (\<open>setMessages(prev => [...prev, data])\<close>), the
  notification for the receiver is inserted (the result of that call is not looked
  at), and the input is cleared. The updater runs on the log as it is at that moment.
\<close>

definition sendMessage_confirm ::
  "remote_env \<Rightarrow> auth_user \<Rightarrow> string \<Rightarrow> message \<Rightarrow> chat_window \<Rightarrow> remote_store
     \<Rightarrow> chat_window \<times> remote_store" where
  "sendMessage_confirm env user friend data w db =
     (w\<lparr>messages := messages w @ [data], newMessage := [], selectedFile := None\<rparr>,
      snd (insert_notification env friend Message_note
             (''New message from '' @ email_name user) (Some (u_id user)) db))"

text \<open>
  \<open>sendMessage\<close> as a whole, when no feed event arrives between the insert and its
  answer. The result is the toast shown (none on success), the window and the store.
\<close>

definition sendMessage ::
  "remote_env \<Rightarrow> auth_user option \<Rightarrow> string option \<Rightarrow> chat_window \<Rightarrow> remote_store
     \<Rightarrow> toast option \<times> chat_window \<times> remote_store" where
  "sendMessage env user friend w db =
     (case user of
        None \<Rightarrow> (None, w, db)
      | Some u \<Rightarrow>
          (case friend of
             None \<Rightarrow> (None, w, db)
           | Some f \<Rightarrow>
               if trim (newMessage w) = [] \<and> selectedFile w = None then (None, w, db)
               else
                 (case sendMessage_write env u f w db of
                    (Inl msg, db') \<Rightarrow> (Some (error_toast msg), w\<lparr>loading := False\<rparr>, db')
                  | (Inr data, db') \<Rightarrow>
                      (case sendMessage_confirm env u f data w db' of
                         (w', db'') \<Rightarrow> (None, w'\<lparr>loading := False\<rparr>, db'')))))"

section \<open>UserSearch: sending a friend request\<close>

text \<open>
  The lookup's filter:
  \<open>or(and(requester_id.eq.user,addressee_id.eq.target),and(requester_id.eq.target,addressee_id.eq.user))\<close>.
\<close>

definition friendship_between :: "string \<Rightarrow> string \<Rightarrow> friendship \<Rightarrow> bool" where
  "friendship_between u a f \<longleftrightarrow>
     (requester_id f = u \<and> addressee_id f = a) \<or> (requester_id f = a \<and> addressee_id f = u)"

text \<open>
  \<open>maybeSingle()\<close> of the query builder: no row gives null data and no error, one row
  gives that row, several rows give null data and an error. The result is the pair of
  \<open>data\<close> and \<open>error\<close>.
\<close>

definition maybeSingle :: "'a list \<Rightarrow> 'a option \<times> string option" where
  "maybeSingle rows =
     (case rows of
        [] \<Rightarrow> (None, None)
      | [r] \<Rightarrow> (Some r, None)
      | r # r' # rest \<Rightarrow>
          (None, Some ''JSON object requested, multiple (or no) rows returned''))"

definition select_friendship_between ::
  "remote_env \<Rightarrow> string \<Rightarrow> string \<Rightarrow> remote_store \<Rightarrow> friendship option \<times> string option" where
  "select_friendship_between env u a db =
     (case lookup_fault env of
        Some e \<Rightarrow> (None, Some e)
      | None \<Rightarrow> maybeSingle (filter (friendship_between u a) (friendships db)))"

text \<open>
  \<open>sendFriendRequest\<close> for a signed-in user with id \<open>uid\<close>. Of the lookup's
  result only \<open>data\<close> is bound (\<open>const { data: existing }\<close>). The result is the
  toast shown and the store. (The \<open>sendingRequest\<close> marker of the button is display
  state and is left out.)
\<close>

definition sendFriendRequest ::
  "remote_env \<Rightarrow> string \<Rightarrow> string \<Rightarrow> string \<Rightarrow> remote_store \<Rightarrow> toast \<times> remote_store" where
  "sendFriendRequest env uid addresseeId username db =
     (case fst (select_friendship_between env uid addresseeId db) of
        Some existing \<Rightarrow>
          (\<lparr>title = ''Request Already Exists'',
            description = (if status existing = Accepted
                           then ''You are already friends with this user.''
                           else ''A friend request already exists.''),
            variant = Destructive\<rparr>, db)
      | None \<Rightarrow>
          (case write_fault env of
             Some e \<Rightarrow> (error_toast e, db)
           | None \<Rightarrow>
               (let db1 = db\<lparr>friendships := friendships db @
                            [\<lparr>f_id = new_row_id env, requester_id = uid,
                              addressee_id = addresseeId, status = Pending,
                              f_created_at = now env\<rparr>]\<rparr>;
                    db2 = snd (insert_notification env addresseeId Friend_request
                                 ''You have a new friend request'' (Some uid) db1)
                in (\<lparr>title = ''Request Sent'',
                     description = ''Friend request sent to '' @ username @ ''!'',
                     variant = Default\<rparr>, db2))))"

section \<open>Notifications: inbox, badge, answering a friend request\<close>

record notif_panel =
  notifications :: "notification list"
  pendingRequests :: "friendship list"
  n_loading :: bool

text \<open>
  \<open>fetchNotifications\<close>: the user's notifications, newest first, at most 20, then
  the pending friendships addressed to the user. A failing query throws; the catch
  logs it, and what was set before the failure stays set.
\<close>

definition fetchNotifications ::
  "remote_env \<Rightarrow> string option \<Rightarrow> remote_store \<Rightarrow> notif_panel \<Rightarrow> notif_panel" where
  "fetchNotifications env user db panel =
     (case user of
        None \<Rightarrow> panel
      | Some uid \<Rightarrow>
          (case notifs_fault env of
             Some e \<Rightarrow> panel\<lparr>n_loading := False\<rparr>
           | None \<Rightarrow>
               (let p1 = panel\<lparr>notifications :=
                           take 20 (rev (sort_key n_created_at
                             (filter (\<lambda>n. user_id n = uid) (notifications_table db))))\<rparr>
                in case requests_fault env of
                     Some e \<Rightarrow> p1\<lparr>n_loading := False\<rparr>
                   | None \<Rightarrow>
                       p1\<lparr>pendingRequests :=
                            filter (\<lambda>f. addressee_id f = uid \<and> status f = Pending)
                              (friendships db),
                          n_loading := False\<rparr>)))"

text \<open>\<open>notifications.filter(n => !n.read).length + pendingRequests.length\<close>.\<close>

definition unreadCount :: "notif_panel \<Rightarrow> nat" where
  "unreadCount panel =
     length (filter (\<lambda>n. \<not> n_read n) (notifications panel)) + length (pendingRequests panel)"

text \<open>\<open>supabase.from('friendships').update({ status }).eq('id', friendshipId)\<close>.\<close>

definition update_friendship_status ::
  "string \<Rightarrow> friendship_status \<Rightarrow> remote_store \<Rightarrow> remote_store" where
  "update_friendship_status friendshipId st db =
     db\<lparr>friendships :=
          map (\<lambda>r. if f_id r = friendshipId then r\<lparr>status := st\<rparr> else r) (friendships db)\<rparr>"

text \<open>
  \<open>handleFriendRequest\<close>: the request is looked up in the local list of pending
  requests, the status update is sent for the id, and on acceptance of a request that
  was found locally the requester is notified (the result of that call is not looked
  at). Then the success toast is shown and the inbox is fetched again. The result is
  the toast, the store and the inbox.
\<close>

definition handleFriendRequest ::
  "remote_env \<Rightarrow> string option \<Rightarrow> string \<Rightarrow> bool \<Rightarrow> remote_store \<Rightarrow> notif_panel
     \<Rightarrow> toast \<times> remote_store \<times> notif_panel" where
  "handleFriendRequest env user friendshipId accept db panel =
     (let friendship = find (\<lambda>r. f_id r = friendshipId) (pendingRequests panel)
      in case write_fault env of
           Some e \<Rightarrow> (error_toast e, db, panel)
         | None \<Rightarrow>
             (let db1 = update_friendship_status friendshipId
                          (if accept then Accepted else Rejected) db;
                  db2 = (case friendship of
                           None \<Rightarrow> db1
                         | Some fr \<Rightarrow>
                             if accept
                             then snd (insert_notification env (requester_id fr)
                                         Friend_accepted ''Your friend request was accepted!''
                                         user db1)
                             else db1)
              in (\<lparr>title = (if accept then ''Friend Added'' else ''Request Declined''),
                   description = (if accept then ''You are now friends!''
                                  else ''Friend request declined.''),
                   variant = Default\<rparr>,
                  db2, fetchNotifications env user db2 panel)))"

section \<open>Sequences of friendship operations\<close>






section \<open>Concrete scenarios\<close>

text \<open>
  Two users, an empty store, and a remote side that accepts every call; the scenarios
  below are run on them.
\<close>

definition alice :: auth_user where
  "alice = \<lparr>u_id = ''u1'', email = Some ''alice@example.org''\<rparr>"

definition empty_store :: remote_store where
  "empty_store =
     \<lparr>friendships = [], messages_table = [], notifications_table = [], chat_media = []\<rparr>"

definition empty_panel :: notif_panel where
  "empty_panel = \<lparr>notifications = [], pendingRequests = [], n_loading = True\<rparr>"

definition quiet_env :: remote_env where
  "quiet_env =
     \<lparr>lookup_fault = None, write_fault = None, notify_fault = None, notifs_fault = None,
      requests_fault = None, upload_fault = None,
      storage_url = ''https://cdn.example.org/chat-media/'', date_now = 1705,
      new_row_id = ''r1'', new_notification_id = ''n1'', now = 1\<rparr>"

text \<open>A message from \<open>sender\<close> to \<open>receiver\<close> with the given id and text.\<close>

definition text_message :: "string \<Rightarrow> string \<Rightarrow> string \<Rightarrow> string \<Rightarrow> message" where
  "text_message i sender receiver txt =
     \<lparr>m_id = i, sender_id = sender, receiver_id = receiver, content = Some (utf16 txt),
      media_url = None, media_type = None, file_name = None, m_read = False,
      m_created_at = 1\<rparr>"

definition insert_event :: "message \<Rightarrow> change_event" where
  "insert_event m = \<lparr>eventType = INSERT, payload_new = m\<rparr>"

definition update_event :: "message \<Rightarrow> change_event" where
  "update_event m = \<lparr>eventType = UPDATE, payload_new = m\<rparr>"

text \<open>
  Alice has conversation \<open>a\<close> open and has typed a message; \<open>hi_row\<close> is the row
  that the store persists for it.
\<close>

definition hi_window :: chat_window where
  "hi_window =
     (open_conversation (Some alice) (Some ''a'') initial_window)
       \<lparr>newMessage := utf16 ''hi ''\<rparr>"

definition hi_row :: message where
  "hi_row =
     \<lparr>m_id = ''r1'', sender_id = ''u1'', receiver_id = ''a'', content = Some (utf16 ''hi''),
      media_url = None, media_type = None, file_name = None, m_read = False,
      m_created_at = 1\<rparr>"

text \<open>The same window with an attachment selected, and a remote side whose upload fails.\<close>

definition gif_window :: chat_window where
  "gif_window =
     hi_window\<lparr>selectedFile := Some \<lparr>file_name_of = ''cat.gif'', file_type = ''image/gif''\<rparr>\<rparr>"

definition upload_down_env :: remote_env where
  "upload_down_env = quiet_env\<lparr>upload_fault := Some ''quota exceeded''\<rparr>"

text \<open>
  A store in which users \<open>u1\<close> and \<open>u2\<close> have requested each other at the same time,
  so that two rows link the pair.
\<close>

definition mutual_store :: remote_store where
  "mutual_store =
     empty_store\<lparr>friendships :=
       [\<lparr>f_id = ''f1'', requester_id = ''u1'', addressee_id = ''u2'', status = Pending,
         f_created_at = 0\<rparr>,
        \<lparr>f_id = ''f2'', requester_id = ''u2'', addressee_id = ''u1'', status = Pending,
         f_created_at = 0\<rparr>]\<rparr>"

text \<open>
  User \<open>u1\<close> requests \<open>u2\<close>; \<open>u2\<close>'s inbox is fetched and shows the request; \<open>u2\<close>
  accepts it; then, from the inbox as it was fetched (the accept and the decline button
  of the request are both still shown until the next fetch arrives), \<open>u2\<close> declines it.
\<close>

definition request_row :: "friendship_status \<Rightarrow> friendship" where
  "request_row st =
     \<lparr>f_id = ''r1'', requester_id = ''u1'', addressee_id = ''u2'', status = st,
      f_created_at = 1\<rparr>"

definition requested_store :: remote_store where
  "requested_store = snd (sendFriendRequest quiet_env ''u1'' ''u2'' ''bob'' empty_store)"




text \<open>
  An inbox store: user \<open>u2\<close> owns two unread notifications and a read one, another
  user owns an unread one; one pending and one accepted friendship are addressed to
  \<open>u2\<close>, and one pending friendship is addressed to someone else.
\<close>

definition notification_row :: "string \<Rightarrow> string \<Rightarrow> bool \<Rightarrow> nat \<Rightarrow> notification" where
  "notification_row i owner rd t =
     \<lparr>n_id = i, user_id = owner, n_type = Message_note, n_content = ''New message from alice'',
      related_id = Some ''u1'', n_read = rd, n_created_at = t\<rparr>"

definition inbox_store :: remote_store where
  "inbox_store =
     \<lparr>friendships =
        [\<lparr>f_id = ''f1'', requester_id = ''u1'', addressee_id = ''u2'', status = Pending,
          f_created_at = 1\<rparr>,
         \<lparr>f_id = ''f2'', requester_id = ''u3'', addressee_id = ''u2'', status = Accepted,
          f_created_at = 2\<rparr>,
         \<lparr>f_id = ''f3'', requester_id = ''u2'', addressee_id = ''u4'', status = Pending,
          f_created_at = 3\<rparr>],
      messages_table = [],
      notifications_table =
        [notification_row ''n1'' ''u2'' False 1, notification_row ''n2'' ''u2'' True 2,
         notification_row ''n3'' ''u5'' False 3, notification_row ''n4'' ''u2'' False 4],
      chat_media = []\<rparr>"

text \<open>
  A crowded inbox store: user \<open>u2\<close> owns two unread notifications and twenty newer
  read ones, and one pending friendship is addressed to \<open>u2\<close>.
\<close>

definition crowded_store :: remote_store where
  "crowded_store =
     \<lparr>friendships =
        [\<lparr>f_id = ''f1'', requester_id = ''u1'', addressee_id = ''u2'', status = Pending,
          f_created_at = 1\<rparr>],
      messages_table = [],
      notifications_table =
        notification_row ''old1'' ''u2'' False 1 # notification_row ''old2'' ''u2'' False 2 #
        map (\<lambda>t. notification_row (''n'' @ string_of_nat t) ''u2'' True t) [3..<23],
      chat_media = []\<rparr>"

section \<open>The media kind\<close>




section \<open>The feed handler of the conversation\<close>

lemma find_app:
  "find P (xs @ ys) = (case find P xs of None \<Rightarrow> find P ys | Some x \<Rightarrow> Some x)"
  by (induction xs) auto

lemma feed_insert_handler_find:
  "find (\<lambda>m. m_id m = i) (foldl (\<lambda>log m. feed_insert_handler m log) log ms) =
   find (\<lambda>m. m_id m = i) (log @ ms)"
proof (induction ms arbitrary: log)
  case Nil
  then show ?case by simp
next
  case (Cons m ms)
  show ?case
  proof (cases "list_ex (\<lambda>x. m_id x = m_id m) log")
    case True
    then obtain x where x: "x \<in> set log" "m_id x = m_id m"
      by (auto simp: list_ex_iff)
    have "find (\<lambda>m. m_id m = i) (log @ m # ms) = find (\<lambda>m. m_id m = i) (log @ ms)"
    proof (cases "m_id m = i")
      case True
      with x have "find (\<lambda>m. m_id m = i) log \<noteq> None"
        by (auto simp: find_None_iff)
      then show ?thesis by (auto simp: find_app)
    next
      case False
      then show ?thesis by (simp add: find_app split: option.splits)
    qed
    with True Cons.IH [of log] show ?thesis
      by (simp add: feed_insert_handler_def)
  next
    case False
    with Cons.IH [of "log @ [m]"] show ?thesis
      by (simp add: feed_insert_handler_def)
  qed
qed

lemma feed_insert_handler_idem:
  "feed_insert_handler m (feed_insert_handler m log) = feed_insert_handler m log"
  by (simp add: feed_insert_handler_def list_ex_iff)

lemma channel_receive_idem:
  "channel_receive ch ev (channel_receive ch ev log) = channel_receive ch ev log"
  by (simp add: channel_receive_def feed_insert_handler_idem)

lemma deliver_single:
  "channels w = [ch] \<Longrightarrow> deliver ev w = w\<lparr>messages := channel_receive ch ev (messages w)\<rparr>"
  by (simp add: deliver_def)

lemma deliver_channels [simp]: "channels (deliver ev w) = channels w"
  by (simp add: deliver_def)

lemma deliver_all_channels [simp]: "channels (deliver_all evs w) = channels w"
  unfolding deliver_all_def by (induction evs arbitrary: w) simp_all

lemma deliver_all_single:
  "channels w = [\<lparr>ch_event = INSERT, ch_user = u, ch_friend = f\<rparr>] \<Longrightarrow>
   messages (deliver_all evs w) =
     foldl (\<lambda>log m. feed_insert_handler m log) (messages w)
       (map payload_new (filter (event_applied u f) evs))"
  unfolding deliver_all_def
proof (induction evs arbitrary: w)
  case Nil
  then show ?case by simp
next
  case (Cons ev evs)
  have ch: "channels (deliver ev w) = [\<lparr>ch_event = INSERT, ch_user = u, ch_friend = f\<rparr>]"
    using Cons.prems by simp
  show ?case
    using Cons.IH [OF ch] Cons.prems
    by (simp add: deliver_single channel_receive_def event_applied_def)
qed

lemma feed_insert_handler_distinct:
  "distinct (map m_id log) \<Longrightarrow> distinct (map m_id (feed_insert_handler m log))"
  by (auto simp: feed_insert_handler_def list_ex_iff)

lemma feed_insert_handler_fold_distinct:
  "distinct (map m_id log) \<Longrightarrow>
   distinct (map m_id (foldl (\<lambda>log m. feed_insert_handler m log) log ms))"
  by (induction ms arbitrary: log) (simp_all add: feed_insert_handler_distinct)

text \<open>
  C2 (amended). On the conversation subscription only insert events of the
  conversation are applied: the channel is registered for INSERT, so an update event
  leaves the window as it is. An applied insert whose id is already in the log leaves
  the window as it is, whatever its payload; an applied insert whose id is not in the log
  appends its payload at the end. Hence delivering the same event a second time
  changes nothing, a log with one entry per id keeps one entry per id, and the row
  materialized for an id is the first one that the log or the applied inserts hold for
  it: a later update or insert does not override it.
\<close>

theorem feed_first_insert_wins:
  assumes "channels w = [\<lparr>ch_event = INSERT, ch_user = u, ch_friend = f\<rparr>]"
  shows "(\<not> event_applied u f ev \<longrightarrow> deliver ev w = w) \<and>
         (event_applied u f ev \<and>
          list_ex (\<lambda>m. m_id m = m_id (payload_new ev)) (messages w) \<longrightarrow> deliver ev w = w) \<and>
         (event_applied u f ev \<and>
          \<not> list_ex (\<lambda>m. m_id m = m_id (payload_new ev)) (messages w) \<longrightarrow>
            deliver ev w = w\<lparr>messages := messages w @ [payload_new ev]\<rparr>) \<and>
         (eventType ev \<noteq> INSERT \<longrightarrow> deliver ev w = w) \<and>
         deliver ev (deliver ev w) = deliver ev w \<and>
         (distinct (map m_id (messages w)) \<longrightarrow>
            distinct (map m_id (messages (deliver_all evs w)))) \<and>
         find (\<lambda>m. m_id m = i) (messages (deliver_all evs w)) =
           find (\<lambda>m. m_id m = i)
             (messages w @ map payload_new (filter (event_applied u f) evs))"
proof -
  have 1: "\<not> event_applied u f ev \<longrightarrow> deliver ev w = w"
    using assms by (simp add: deliver_single channel_receive_def event_applied_def)
  have 2: "event_applied u f ev \<and>
          list_ex (\<lambda>m. m_id m = m_id (payload_new ev)) (messages w) \<longrightarrow> deliver ev w = w"
    using assms
    by (simp add: deliver_single channel_receive_def event_applied_def feed_insert_handler_def)
  have 3: "event_applied u f ev \<and>
          \<not> list_ex (\<lambda>m. m_id m = m_id (payload_new ev)) (messages w) \<longrightarrow>
            deliver ev w = w\<lparr>messages := messages w @ [payload_new ev]\<rparr>"
    using assms
    by (simp add: deliver_single channel_receive_def event_applied_def feed_insert_handler_def)
  have 4: "eventType ev \<noteq> INSERT \<longrightarrow> deliver ev w = w"
    using assms by (simp add: deliver_single channel_receive_def)
  have 5: "deliver ev (deliver ev w) = deliver ev w"
    using assms by (simp add: deliver_single channel_receive_idem)
  have 6: "distinct (map m_id (messages w)) \<longrightarrow>
            distinct (map m_id (messages (deliver_all evs w)))"
    using assms by (simp add: deliver_all_single feed_insert_handler_fold_distinct)
  have 7: "find (\<lambda>m. m_id m = i) (messages (deliver_all evs w)) =
           find (\<lambda>m. m_id m = i)
             (messages w @ map payload_new (filter (event_applied u f) evs))"
    using assms by (simp add: deliver_all_single feed_insert_handler_find)
  show ?thesis
    using 1 2 3 4 5 6 7 by (intro conjI) assumption+
qed

lemma filter_a_not_b:
  "a \<noteq> b \<Longrightarrow> conversation_filter u a m \<Longrightarrow> \<not> conversation_filter u b m"
  by (auto simp: conversation_filter_def)

lemma handler_set:
  "set (foldl (\<lambda>log m. feed_insert_handler m log) log ms) \<subseteq> set log \<union> set ms"
proof (induction ms arbitrary: log)
  case Nil
  then show ?case by simp
next
  case (Cons m ms)
  have "set (feed_insert_handler m log) \<subseteq> set log \<union> {m}"
    by (auto simp: feed_insert_handler_def)
  with Cons.IH [of "feed_insert_handler m log"] show ?case
    by auto
qed

text \<open>
  The answer of \<open>fetchMessages\<close> touches no channel, and the log it installs holds
  rows of the fetched conversation only.
\<close>

lemma fetchMessages_channels:
  "channels (fst (fetchMessages env user friend w db)) = channels w"
  by (simp add: fetchMessages_def split: option.splits)

lemma fetchMessages_log:
  assumes "lookup_fault env = None"
  shows "set (messages (fst (fetchMessages env (Some u) (Some f) w db))) =
           {m \<in> set (messages_table db). conversation_filter (u_id u) f m}"
  using assms by (auto simp: fetchMessages_def)

text \<open>
  The live channels of a window are the one channel its last effect run created, if
  any: this holds at mount and is kept by every run of the effect and by every
  delivery.
\<close>

lemma one_channel_initially:
  "channels initial_window =
     (case cleanup initial_window of None \<Rightarrow> [] | Some ch \<Rightarrow> [ch])"
  by (simp add: initial_window_def)

lemma one_channel_kept:
  assumes "channels w = (case cleanup w of None \<Rightarrow> [] | Some ch \<Rightarrow> [ch])"
  shows "channels (open_conversation user friend w) =
           (case cleanup (open_conversation user friend w) of
              None \<Rightarrow> [] | Some ch \<Rightarrow> [ch])"
    and "channels (deliver ev w) =
           (case cleanup (deliver ev w) of None \<Rightarrow> [] | Some ch \<Rightarrow> [ch])"
  using assms
  by (auto simp: open_conversation_def effect_body_def effect_cleanup_def deliver_def Let_def
           split: option.splits)

lemma open_conversation_channels:
  assumes "channels w = (case cleanup w of None \<Rightarrow> [] | Some ch \<Rightarrow> [ch])"
  shows "channels (open_conversation (Some user) (Some b) w) =
           [\<lparr>ch_event = INSERT, ch_user = u_id user, ch_friend = b\<rparr>]"
    and "messages (open_conversation (Some user) (Some b) w) = messages w"
  using assms
  by (auto simp: open_conversation_def effect_body_def effect_cleanup_def Let_def
           split: option.splits)

text \<open>
  C3. When conversation B is opened in a window whose only live channel, if any, is
  the one the previous run of the effect created, the previous channel is removed
  before the new one is added, so that B's channel is the only live one. Of the feed
  events delivered afterwards only inserts of B's conversation reach the log: every
  entry of the resulting log was in the log at the switch or belongs to B's
  conversation, and the events of another conversation A have no effect at all (the
  log is the one obtained without them).
\<close>

theorem switch_no_cross_talk:
  assumes inv: "channels w = (case cleanup w of None \<Rightarrow> [] | Some ch \<Rightarrow> [ch])"
    and w': "w' = open_conversation (Some user) (Some b) w"
  shows "channels w' = [\<lparr>ch_event = INSERT, ch_user = u_id user, ch_friend = b\<rparr>] \<and>
         (\<forall>m \<in> set (messages (deliver_all evs w')).
            m \<in> set (messages w) \<or> conversation_filter (u_id user) b m) \<and>
         (a \<noteq> b \<longrightarrow>
            messages (deliver_all evs w') =
            messages (deliver_all
              (filter (\<lambda>ev. \<not> conversation_filter (u_id user) a (payload_new ev)) evs) w'))"
proof -
  let ?ch = "\<lparr>ch_event = INSERT, ch_user = u_id user, ch_friend = b\<rparr>"
  have ch: "channels w' = [?ch]" and ms: "messages w' = messages w"
    using open_conversation_channels [OF inv] w' by simp_all
  have sub: "set (messages (deliver_all evs w')) \<subseteq>
               set (messages w) \<union> set (map payload_new (filter (event_applied (u_id user) b) evs))"
    using handler_set [of "messages w'" "map payload_new (filter (event_applied (u_id user) b) evs)"]
    by (simp add: deliver_all_single [OF ch] ms)
  have 2: "\<forall>m \<in> set (messages (deliver_all evs w')).
            m \<in> set (messages w) \<or> conversation_filter (u_id user) b m"
  proof
    fix m assume "m \<in> set (messages (deliver_all evs w'))"
    with sub have "m \<in> set (messages w) \<or>
        m \<in> set (map payload_new (filter (event_applied (u_id user) b) evs))"
      by blast
    then show "m \<in> set (messages w) \<or> conversation_filter (u_id user) b m"
      by (auto simp: event_applied_def)
  qed
  have 3: "a \<noteq> b \<longrightarrow>
            messages (deliver_all evs w') =
            messages (deliver_all
              (filter (\<lambda>ev. \<not> conversation_filter (u_id user) a (payload_new ev)) evs) w')"
  proof
    assume ab: "a \<noteq> b"
    have "filter (event_applied (u_id user) b)
            (filter (\<lambda>ev. \<not> conversation_filter (u_id user) a (payload_new ev)) evs) =
          filter (event_applied (u_id user) b) evs"
      using filter_a_not_b [OF ab] by (auto simp: event_applied_def intro!: filter_cong)
    then show "messages (deliver_all evs w') =
            messages (deliver_all
              (filter (\<lambda>ev. \<not> conversation_filter (u_id user) a (payload_new ev)) evs) w')"
      by (simp add: deliver_all_single [OF ch])
  qed
  from ch 2 3 show ?thesis by blast
qed


section \<open>Scenarios of the conversation feed\<close>

lemma alice_id [simp]: "u_id alice = ''u1''"
  by (simp add: alice_def)

lemma open_from_initial:
  "open_conversation (Some u) (Some f) initial_window =
     \<lparr>messages = [], newMessage = [], selectedFile = None, loading = False,
      channels = [\<lparr>ch_event = INSERT, ch_user = u_id u, ch_friend = f\<rparr>],
      cleanup = Some \<lparr>ch_event = INSERT, ch_user = u_id u, ch_friend = f\<rparr>\<rparr>"
  by (simp add: open_conversation_def effect_body_def effect_cleanup_def initial_window_def
        Let_def)

lemma open_twice:
  "open_conversation (Some u) (Some g)
     (open_conversation (Some u) (Some f) initial_window) =
     \<lparr>messages = [], newMessage = [], selectedFile = None, loading = False,
      channels = [\<lparr>ch_event = INSERT, ch_user = u_id u, ch_friend = g\<rparr>],
      cleanup = Some \<lparr>ch_event = INSERT, ch_user = u_id u, ch_friend = g\<rparr>\<rparr>"
  unfolding open_from_initial
  by (simp add: open_conversation_def effect_body_def effect_cleanup_def Let_def)

theorem switch_no_cross_talk_witness:
  "channels (open_conversation (Some alice) (Some ''a'') initial_window) =
     [\<lparr>ch_event = INSERT, ch_user = ''u1'', ch_friend = ''a''\<rparr>] \<and>
   channels (open_conversation (Some alice) (Some ''b'')
       (open_conversation (Some alice) (Some ''a'') initial_window)) =
     [\<lparr>ch_event = INSERT, ch_user = ''u1'', ch_friend = ''b''\<rparr>] \<and>
   messages (deliver_all
       [insert_event (text_message ''m1'' ''a'' ''u1'' ''from a''),
        insert_event (text_message ''m2'' ''b'' ''u1'' ''from b'')]
       (open_conversation (Some alice) (Some ''b'')
          (open_conversation (Some alice) (Some ''a'') initial_window))) =
     [text_message ''m2'' ''b'' ''u1'' ''from b'']"
proof -
  let ?w = "open_conversation (Some alice) (Some ''a'') initial_window"
  let ?w' = "open_conversation (Some alice) (Some ''b'') ?w"
  let ?evs = "[insert_event (text_message ''m1'' ''a'' ''u1'' ''from a''),
               insert_event (text_message ''m2'' ''b'' ''u1'' ''from b'')]"
  have inv: "channels ?w = (case cleanup ?w of None \<Rightarrow> [] | Some ch \<Rightarrow> [ch])"
    by (simp add: open_from_initial)
  have ab: "''a'' \<noteq> ''b''" by simp
  note t = switch_no_cross_talk [OF inv refl, where evs = ?evs and a = "''a''"]
  have ch: "channels ?w' = [\<lparr>ch_event = INSERT, ch_user = ''u1'', ch_friend = ''b''\<rparr>]"
    using t by (simp add: alice_def)
  have "messages (deliver_all ?evs ?w') =
        messages (deliver_all
          (filter (\<lambda>ev. \<not> conversation_filter (u_id alice) ''a'' (payload_new ev)) ?evs) ?w')"
    using t ab by blast
  also have "\<dots> = [text_message ''m2'' ''b'' ''u1'' ''from b'']"
    unfolding open_twice
    by (simp add: deliver_all_def deliver_def channel_receive_def
          feed_insert_handler_def conversation_filter_def insert_event_def
          text_message_def alice_def)
  finally show ?thesis using ch by (simp add: open_from_initial)
qed

text \<open>
  C2 as stated fails: after an insert for row \<open>m1\<close> and an update for the same row
  (its read flag set), the log still holds the inserted payload, not the payload of the
  last event.
\<close>

theorem update_does_not_override:
  "find (\<lambda>m. m_id m = ''m1'')
     (messages (deliver_all
        [insert_event (text_message ''m1'' ''a'' ''u1'' ''hello''),
         update_event ((text_message ''m1'' ''a'' ''u1'' ''hello'')\<lparr>m_read := True\<rparr>)]
        (open_conversation (Some alice) (Some ''a'') initial_window))) =
   Some (text_message ''m1'' ''a'' ''u1'' ''hello'') \<and>
   text_message ''m1'' ''a'' ''u1'' ''hello'' \<noteq>
     (text_message ''m1'' ''a'' ''u1'' ''hello'')\<lparr>m_read := True\<rparr>"
  by (simp add: open_from_initial deliver_all_def deliver_def channel_receive_def
        feed_insert_handler_def conversation_filter_def insert_event_def update_event_def
        text_message_def)

theorem feed_first_insert_wins_witness:
  "deliver (insert_event (text_message ''m1'' ''a'' ''u1'' ''hello''))
     (open_conversation (Some alice) (Some ''a'') initial_window) =
   (open_conversation (Some alice) (Some ''a'') initial_window)
     \<lparr>messages := [text_message ''m1'' ''a'' ''u1'' ''hello'']\<rparr> \<and>
   deliver (insert_event (text_message ''m1'' ''a'' ''u1'' ''again''))
     ((open_conversation (Some alice) (Some ''a'') initial_window)
        \<lparr>messages := [text_message ''m1'' ''a'' ''u1'' ''hello'']\<rparr>) =
   (open_conversation (Some alice) (Some ''a'') initial_window)
     \<lparr>messages := [text_message ''m1'' ''a'' ''u1'' ''hello'']\<rparr> \<and>
   deliver (update_event ((text_message ''m1'' ''a'' ''u1'' ''hello'')\<lparr>m_read := True\<rparr>))
     ((open_conversation (Some alice) (Some ''a'') initial_window)
        \<lparr>messages := [text_message ''m1'' ''a'' ''u1'' ''hello'']\<rparr>) =
   (open_conversation (Some alice) (Some ''a'') initial_window)
     \<lparr>messages := [text_message ''m1'' ''a'' ''u1'' ''hello'']\<rparr> \<and>
   distinct (map m_id (messages (deliver_all
     [insert_event (text_message ''m1'' ''a'' ''u1'' ''hello''),
      update_event ((text_message ''m1'' ''a'' ''u1'' ''hello'')\<lparr>m_read := True\<rparr>),
      insert_event (text_message ''m1'' ''a'' ''u1'' ''again'')]
     (open_conversation (Some alice) (Some ''a'') initial_window))))"
proof -
  let ?w = "open_conversation (Some alice) (Some ''a'') initial_window"
  let ?hello = "text_message ''m1'' ''a'' ''u1'' ''hello''"
  let ?again = "text_message ''m1'' ''a'' ''u1'' ''again''"
  let ?w1 = "?w\<lparr>messages := [?hello]\<rparr>"
  let ?ch = "\<lparr>ch_event = INSERT, ch_user = ''u1'', ch_friend = ''a''\<rparr>"
  have ch: "channels ?w = [?ch]" and ch1: "channels ?w1 = [?ch]"
    by (simp_all add: open_from_initial)
  have m: "messages ?w = []" and m1: "messages ?w1 = [?hello]"
    by (simp_all add: open_from_initial)
  have ap: "event_applied ''u1'' ''a'' (insert_event ?hello)"
    and ap2: "event_applied ''u1'' ''a'' (insert_event ?again)"
    by (simp_all add: event_applied_def conversation_filter_def insert_event_def
          text_message_def)
  have new: "\<not> list_ex (\<lambda>m. m_id m = m_id (payload_new (insert_event ?hello))) (messages ?w)"
    by (simp add: m)
  have old: "list_ex (\<lambda>m. m_id m = m_id (payload_new (insert_event ?again))) (messages ?w1)"
    by (simp add: m1 insert_event_def text_message_def)
  have up: "eventType (update_event (?hello\<lparr>m_read := True\<rparr>)) \<noteq> INSERT"
    by (simp add: update_event_def)
  have d: "distinct (map m_id (messages ?w))"
    by (simp add: m)
  note t = feed_first_insert_wins [OF ch]
  note t1 = feed_first_insert_wins [OF ch1]
  have 1: "deliver (insert_event ?hello) ?w = ?w1"
    using t [where ev = "insert_event ?hello", THEN conjunct2, THEN conjunct2, THEN conjunct1,
             rule_format, OF conjI [OF ap new]]
    by (simp add: m insert_event_def)
  have 2: "deliver (insert_event ?again) ?w1 = ?w1"
    by (rule t1 [where ev = "insert_event ?again", THEN conjunct2, THEN conjunct1,
             rule_format, OF conjI [OF ap2 old]])
  have 3: "deliver (update_event (?hello\<lparr>m_read := True\<rparr>)) ?w1 = ?w1"
    by (rule t1 [where ev = "update_event (?hello\<lparr>m_read := True\<rparr>)",
             THEN conjunct2, THEN conjunct2, THEN conjunct2, THEN conjunct1,
             rule_format, OF up])
  have 4: "distinct (map m_id (messages (deliver_all
     [insert_event ?hello, update_event (?hello\<lparr>m_read := True\<rparr>), insert_event ?again] ?w)))"
    by (rule t [THEN conjunct2, THEN conjunct2, THEN conjunct2, THEN conjunct2,
             THEN conjunct2, THEN conjunct1, rule_format, OF d])
  show ?thesis
    using 1 2 3 4 by (intro conjI) assumption+
qed

section \<open>Sending a message and its feed echo\<close>

lemma trim_hi: "trim (utf16 ''hi '') = utf16 ''hi''"
  by (simp add: trim_def is_space_def utf16_def)

lemma hi_window_eq:
  "hi_window =
     \<lparr>messages = [], newMessage = utf16 ''hi '', selectedFile = None, loading = False,
      channels = [\<lparr>ch_event = INSERT, ch_user = ''u1'', ch_friend = ''a''\<rparr>],
      cleanup = Some \<lparr>ch_event = INSERT, ch_user = ''u1'', ch_friend = ''a''\<rparr>\<rparr>"
  by (simp add: hi_window_def open_from_initial)

text \<open>
  When the confirmed row is appended first, the echo finds its id and is dropped: the
  log gains the row once.
\<close>

lemma echo_after_confirm:
  assumes "channels w = [ch]"
  shows "messages (deliver (insert_event data)
           (fst (sendMessage_confirm env user friend data w db))) = messages w @ [data]"
  using assms
  by (simp add: sendMessage_confirm_def deliver_def channel_receive_def insert_event_def
        feed_insert_handler_def)

text \<open>
  When the echo is delivered first, it is appended (the id is new), and the confirmed
  row is then appended without a look at the ids: the log gains the row twice.
\<close>

lemma echo_before_confirm:
  assumes "channels w = [\<lparr>ch_event = INSERT, ch_user = u_id user, ch_friend = friend\<rparr>]"
    and "sender_id data = u_id user" and "receiver_id data = friend"
    and "\<not> list_ex (\<lambda>m. m_id m = m_id data) (messages w)"
  shows "messages (fst (sendMessage_confirm env user friend data
           (deliver (insert_event data) w) db)) = messages w @ [data, data]"
  using assms
  by (simp add: sendMessage_confirm_def deliver_def channel_receive_def insert_event_def
        feed_insert_handler_def conversation_filter_def)

text \<open>
  C1 (the code at the failing input). Alice sends \<open>hi\<close> in conversation \<open>a\<close>; the
  insert succeeds and the store persists \<open>hi_row\<close>. The feed's echo of that row is
  delivered before the insert call answers; then the answer is handled and the row is
  appended. The log now holds the row twice.
\<close>

theorem echo_before_confirm_duplicates:
  "sendMessage_write quiet_env alice ''a'' hi_window empty_store =
     (Inr hi_row, empty_store\<lparr>messages_table := [hi_row]\<rparr>) \<and>
   messages (fst (sendMessage_confirm quiet_env alice ''a'' hi_row
        (deliver (insert_event hi_row) hi_window)
        (empty_store\<lparr>messages_table := [hi_row]\<rparr>))) = [hi_row, hi_row]"
proof -
  have 1: "sendMessage_write quiet_env alice ''a'' hi_window empty_store =
     (Inr hi_row, empty_store\<lparr>messages_table := [hi_row]\<rparr>)"
    using trim_hi
    by (simp add: sendMessage_write_def hi_window_eq quiet_env_def hi_row_def
          empty_store_def Let_def utf16_def)
  have 2: "messages (fst (sendMessage_confirm quiet_env alice ''a'' hi_row
        (deliver (insert_event hi_row) hi_window)
        (empty_store\<lparr>messages_table := [hi_row]\<rparr>))) = [hi_row, hi_row]"
    by (simp add: sendMessage_confirm_def hi_window_eq deliver_def channel_receive_def
          insert_event_def feed_insert_handler_def conversation_filter_def hi_row_def)
  from 1 2 show ?thesis by simp
qed

section \<open>A failed upload\<close>

text \<open>
  C7. When a send has an attachment and the upload of the blob fails, the send ends
  with the error toast \<open>Failed to upload file\<close>, the store is as before (no message
  row is inserted), and the window is as before: log, input and selected file are
  untouched, and the loading flag is off.
\<close>

theorem upload_failure_is_atomic:
  assumes "selectedFile w = Some fl" and "upload_fault env = Some err"
  shows "sendMessage env (Some user) (Some friend) w db =
           (Some (error_toast ''Failed to upload file''), w\<lparr>loading := False\<rparr>, db)"
  using assms by (simp add: sendMessage_def sendMessage_write_def uploadFile_def Let_def)

theorem upload_failure_is_atomic_witness:
  "selectedFile gif_window = Some \<lparr>file_name_of = ''cat.gif'', file_type = ''image/gif''\<rparr> \<and>
   upload_fault upload_down_env = Some ''quota exceeded'' \<and>
   sendMessage upload_down_env (Some alice) (Some ''a'') gif_window empty_store =
     (Some \<lparr>title = ''Error'', description = ''Failed to upload file'', variant = Destructive\<rparr>,
      gif_window, empty_store)"
proof -
  have f: "selectedFile gif_window = Some \<lparr>file_name_of = ''cat.gif'', file_type = ''image/gif''\<rparr>"
    by (simp add: gif_window_def)
  have u: "upload_fault upload_down_env = Some ''quota exceeded''"
    by (simp add: upload_down_env_def)
  have l: "gif_window\<lparr>loading := False\<rparr> = gif_window"
    by (simp add: gif_window_def hi_window_eq)
  show ?thesis
    using upload_failure_is_atomic [OF f u, of alice "''a''" empty_store] f u l
    by (simp add: error_toast_def)
qed

section \<open>Friend requests\<close>

lemma insert_notification_friendships [simp]:
  "friendships (snd (insert_notification env owner kind txt rel db)) = friendships db"
  by (simp add: insert_notification_def split: option.splits)

lemma insert_notification_messages [simp]:
  "messages_table (snd (insert_notification env owner kind txt rel db)) = messages_table db"
  by (simp add: insert_notification_def split: option.splits)

text \<open>
  With exactly one row between the pair the lookup returns it, and the request ends
  with the toast \<open>Request Already Exists\<close> and an unchanged store.
\<close>

lemma sendFriendRequest_one_row_conflict:
  assumes "lookup_fault env = None"
    and "filter (friendship_between uid a) (friendships db) = [r]"
  shows "title (fst (sendFriendRequest env uid a name db)) = ''Request Already Exists'' \<and>
         variant (fst (sendFriendRequest env uid a name db)) = Destructive \<and>
         snd (sendFriendRequest env uid a name db) = db"
  using assms
  by (simp add: sendFriendRequest_def select_friendship_between_def maybeSingle_def)

text \<open>
  With no row between the pair and a remote side that accepts the writes, the request
  adds one pending friendship with the caller as requester and one notification of
  kind \<open>friend_request\<close> owned by the target.
\<close>

lemma sendFriendRequest_no_row_inserts:
  assumes "lookup_fault env = None" and "write_fault env = None" and "notify_fault env = None"
    and "filter (friendship_between uid a) (friendships db) = []"
  shows "sendFriendRequest env uid a name db =
           (\<lparr>title = ''Request Sent'', description = ''Friend request sent to '' @ name @ ''!'',
             variant = Default\<rparr>,
            db\<lparr>friendships := friendships db @
                 [\<lparr>f_id = new_row_id env, requester_id = uid, addressee_id = a,
                   status = Pending, f_created_at = now env\<rparr>],
               notifications_table := notifications_table db @
                 [\<lparr>n_id = new_notification_id env, user_id = a, n_type = Friend_request,
                   n_content = ''You have a new friend request'', related_id = Some uid,
                   n_read = False, n_created_at = now env\<rparr>]\<rparr>)"
  using assms
  by (simp add: sendFriendRequest_def select_friendship_between_def maybeSingle_def
        insert_notification_def Let_def)

text \<open>
  C5 (the code at the failing input). Two rows link \<open>u1\<close> and \<open>u2\<close>. The point lookup
  answers with an error and no data, only the data is looked at, and the request of
  \<open>u1\<close> to \<open>u2\<close> goes on: it reports \<open>Request Sent\<close> and the store holds a third row for
  the pair.
\<close>

theorem sendFriendRequest_two_rows_inserts:
  "select_friendship_between quiet_env ''u1'' ''u2'' mutual_store =
     (None, Some ''JSON object requested, multiple (or no) rows returned'') \<and>
   title (fst (sendFriendRequest quiet_env ''u1'' ''u2'' ''bob'' mutual_store)) =
     ''Request Sent'' \<and>
   map f_id (friendships (snd (sendFriendRequest quiet_env ''u1'' ''u2'' ''bob'' mutual_store))) =
     [''f1'', ''f2'', ''r1'']"
  by (simp add: sendFriendRequest_def select_friendship_between_def maybeSingle_def
        friendship_between_def mutual_store_def empty_store_def quiet_env_def
        insert_notification_def Let_def)

section \<open>The unread badge\<close>

lemma length_filter_sorted_rev:
  "length (filter P (rev (sort_key k xs))) = length (filter P xs)"
proof -
  have "filter P (rev (sort_key k xs)) = rev (sort_key k (filter P xs))"
    by (simp add: rev_filter [symmetric] filter_sort)
  then show ?thesis by simp
qed

text \<open>
  C6 (amended). After a fetch of the inbox whose two queries succeed, the badge count
  is the number of unread rows among the user's 20 newest notifications (the query is
  limited to 20) plus the number of pending friendships addressed to the user; when
  the user owns at most 20 notifications, that is the number of all the user's unread
  notifications plus the number of pending friendships addressed to the user. When the
  query for the requests fails, the count of pending requests is the one the inbox
  held before; when the query for the notifications fails, or nobody is signed in, the
  badge is as before.
\<close>

theorem unreadCount_after_fetch:
  "(notifs_fault env = None \<and> requests_fault env = None \<longrightarrow>
      unreadCount (fetchNotifications env (Some uid) db panel) =
        length (filter (\<lambda>n. \<not> n_read n)
          (take 20 (rev (sort_key n_created_at
             (filter (\<lambda>n. user_id n = uid) (notifications_table db)))))) +
        length (filter (\<lambda>f. addressee_id f = uid \<and> status f = Pending) (friendships db))) \<and>
   (notifs_fault env = None \<and> requests_fault env = None \<and>
    length (filter (\<lambda>n. user_id n = uid) (notifications_table db)) \<le> 20 \<longrightarrow>
      unreadCount (fetchNotifications env (Some uid) db panel) =
        length (filter (\<lambda>n. user_id n = uid \<and> \<not> n_read n) (notifications_table db)) +
        length (filter (\<lambda>f. addressee_id f = uid \<and> status f = Pending) (friendships db))) \<and>
   (notifs_fault env = None \<and> requests_fault env = Some e \<longrightarrow>
      unreadCount (fetchNotifications env (Some uid) db panel) =
        length (filter (\<lambda>n. \<not> n_read n)
          (take 20 (rev (sort_key n_created_at
             (filter (\<lambda>n. user_id n = uid) (notifications_table db)))))) +
        length (pendingRequests panel)) \<and>
   (notifs_fault env = Some e \<longrightarrow>
      unreadCount (fetchNotifications env (Some uid) db panel) = unreadCount panel) \<and>
   unreadCount (fetchNotifications env None db panel) = unreadCount panel"
proof -
  let ?mine = "filter (\<lambda>n. user_id n = uid) (notifications_table db)"
  let ?pending = "filter (\<lambda>f. addressee_id f = uid \<and> status f = Pending) (friendships db)"
  have 1: "notifs_fault env = None \<and> requests_fault env = None \<longrightarrow>
      unreadCount (fetchNotifications env (Some uid) db panel) =
        length (filter (\<lambda>n. \<not> n_read n) (take 20 (rev (sort_key n_created_at ?mine)))) +
        length ?pending"
    by (simp add: unreadCount_def fetchNotifications_def Let_def)
  have few: "length (filter (\<lambda>n. \<not> n_read n) (take 20 (rev (sort_key n_created_at ?mine)))) =
           length (filter (\<lambda>n. user_id n = uid \<and> \<not> n_read n) (notifications_table db))"
    if "length ?mine \<le> 20"
  proof -
    have "take 20 (rev (sort_key n_created_at ?mine)) = rev (sort_key n_created_at ?mine)"
      using that by simp
    then show ?thesis
      by (simp add: length_filter_sorted_rev conj_commute)
  qed
  have 2: "notifs_fault env = None \<and> requests_fault env = None \<and> length ?mine \<le> 20 \<longrightarrow>
      unreadCount (fetchNotifications env (Some uid) db panel) =
        length (filter (\<lambda>n. user_id n = uid \<and> \<not> n_read n) (notifications_table db)) +
        length ?pending"
    using 1 few by simp
  have 3: "notifs_fault env = None \<and> requests_fault env = Some e \<longrightarrow>
      unreadCount (fetchNotifications env (Some uid) db panel) =
        length (filter (\<lambda>n. \<not> n_read n) (take 20 (rev (sort_key n_created_at ?mine)))) +
        length (pendingRequests panel)"
    by (simp add: unreadCount_def fetchNotifications_def Let_def)
  have 4: "notifs_fault env = Some e \<longrightarrow>
      unreadCount (fetchNotifications env (Some uid) db panel) = unreadCount panel"
    by (simp add: unreadCount_def fetchNotifications_def)
  have 5: "unreadCount (fetchNotifications env None db panel) = unreadCount panel"
    by (simp add: fetchNotifications_def)
  show ?thesis
    using 1 2 3 4 5 by (intro conjI) assumption+
qed

theorem unreadCount_after_fetch_witness:
  "length (filter (\<lambda>n. user_id n = ''u2'') (notifications_table inbox_store)) \<le> 20 \<and>
   length (filter (\<lambda>n. user_id n = ''u2'' \<and> \<not> n_read n) (notifications_table inbox_store)) = 2 \<and>
   length (filter (\<lambda>f. addressee_id f = ''u2'' \<and> status f = Pending)
     (friendships inbox_store)) = 1 \<and>
   unreadCount (fetchNotifications quiet_env (Some ''u2'') inbox_store empty_panel) = 3"
proof -
  have n: "notifs_fault quiet_env = None" and r: "requests_fault quiet_env = None"
    by (simp_all add: quiet_env_def)
  have few: "length (filter (\<lambda>n. user_id n = ''u2'') (notifications_table inbox_store)) \<le> 20"
    by (simp add: inbox_store_def notification_row_def)
  have a: "length (filter (\<lambda>n. user_id n = ''u2'' \<and> \<not> n_read n)
             (notifications_table inbox_store)) = 2"
    by (simp add: inbox_store_def notification_row_def)
  have b: "length (filter (\<lambda>f. addressee_id f = ''u2'' \<and> status f = Pending)
             (friendships inbox_store)) = 1"
    by (simp add: inbox_store_def)
  have "unreadCount (fetchNotifications quiet_env (Some ''u2'') inbox_store empty_panel) =
          length (filter (\<lambda>n. user_id n = ''u2'' \<and> \<not> n_read n)
            (notifications_table inbox_store)) +
          length (filter (\<lambda>f. addressee_id f = ''u2'' \<and> status f = Pending)
            (friendships inbox_store))"
    by (rule unreadCount_after_fetch [where env = quiet_env and uid = "''u2''"
          and db = inbox_store and panel = empty_panel,
          THEN conjunct2, THEN conjunct1, rule_format, OF conjI [OF n conjI [OF r few]]])
  then have c: "unreadCount (fetchNotifications quiet_env (Some ''u2'') inbox_store
      empty_panel) = 3"
    using a b by simp
  show ?thesis
    using few a b c by (intro conjI) assumption+
qed

lemma crowded_newest:
  "take 20 (rev (sort_key n_created_at
     (filter (\<lambda>n. user_id n = ''u2'') (notifications_table crowded_store)))) =
   rev (map (\<lambda>t. notification_row (''n'' @ string_of_nat t) ''u2'' True t) [3..<23])"
  by (simp add: crowded_store_def notification_row_def upt_rec_numeral)

text \<open>
  C6 as stated fails: user \<open>u2\<close> owns two unread notifications that are older than
  twenty read ones, and one pending friendship is addressed to \<open>u2\<close>; the fetched
  inbox holds the twenty read rows only, and the badge shows 1, not 3.
\<close>

theorem badge_misses_older_unread:
  "length (filter (\<lambda>n. user_id n = ''u2'' \<and> \<not> n_read n)
     (notifications_table crowded_store)) = 2 \<and>
   length (filter (\<lambda>f. addressee_id f = ''u2'' \<and> status f = Pending)
     (friendships crowded_store)) = 1 \<and>
   unreadCount (fetchNotifications quiet_env (Some ''u2'') crowded_store empty_panel) = 1"
proof -
  have a: "length (filter (\<lambda>n. user_id n = ''u2'' \<and> \<not> n_read n)
     (notifications_table crowded_store)) = 2"
    by (simp add: crowded_store_def notification_row_def filter_map comp_def)
  have b: "length (filter (\<lambda>f. addressee_id f = ''u2'' \<and> status f = Pending)
     (friendships crowded_store)) = 1"
    by (simp add: crowded_store_def)
  have p: "filter (\<lambda>f. addressee_id f = ''u2'' \<and> status f = Pending)
     (friendships crowded_store) = friendships crowded_store"
    by (simp add: crowded_store_def)
  have c: "unreadCount (fetchNotifications quiet_env (Some ''u2'') crowded_store empty_panel) = 1"
    unfolding unreadCount_def fetchNotifications_def
    by (simp add: quiet_env_def crowded_newest p Let_def)
      (simp add: crowded_store_def notification_row_def filter_map comp_def rev_filter [symmetric])
  show ?thesis
    using a b c by (intro conjI) assumption+
qed

section \<open>Answering a friend request\<close>

lemma update_unknown_id:
  assumes "\<forall>r \<in> set (friendships db). f_id r \<noteq> fid"
  shows "update_friendship_status fid st db = db"
proof -
  have "map (\<lambda>r. if f_id r = fid then r\<lparr>status := st\<rparr> else r) (friendships db) =
        friendships db"
    using assms by (intro map_idI) simp
  then show ?thesis by (simp add: update_friendship_status_def)
qed

text \<open>
  C8 (amended). When the id does not resolve to a friendship row, the status update
  matches no row and the friendships are left as they are; the call surfaces an error
  exactly when the remote side answers the update with one, and otherwise shows the
  success toast. The client has no check of its own that the id resolves.
\<close>

theorem respond_unknown_id:
  assumes "\<forall>r \<in> set (friendships db). f_id r \<noteq> fid"
  shows "fst (handleFriendRequest env user fid accept db panel) =
           (case write_fault env of
              Some e \<Rightarrow> error_toast e
            | None \<Rightarrow>
                \<lparr>title = (if accept then ''Friend Added'' else ''Request Declined''),
                 description = (if accept then ''You are now friends!''
                                else ''Friend request declined.''),
                 variant = Default\<rparr>) \<and>
         friendships (fst (snd (handleFriendRequest env user fid accept db panel))) =
           friendships db"
  using update_unknown_id [OF assms]
  by (simp add: handleFriendRequest_def Let_def split: option.splits)

lemma requested_store_eq:
  "requested_store =
     \<lparr>friendships = [request_row Pending], messages_table = [],
      notifications_table =
        [\<lparr>n_id = ''n1'', user_id = ''u2'', n_type = Friend_request,
          n_content = ''You have a new friend request'', related_id = Some ''u1'',
          n_read = False, n_created_at = 1\<rparr>],
      chat_media = []\<rparr>"
  by (simp add: requested_store_def sendFriendRequest_def select_friendship_between_def
        maybeSingle_def quiet_env_def empty_store_def insert_notification_def Let_def
        request_row_def)

theorem respond_unknown_id_witness:
  "f_id (request_row Pending) \<noteq> ''r9'' \<and>
   fst (handleFriendRequest (quiet_env\<lparr>write_fault := Some ''offline''\<rparr>) (Some ''u2'') ''r9''
          False requested_store empty_panel) = error_toast ''offline'' \<and>
   title (fst (handleFriendRequest quiet_env (Some ''u2'') ''r9'' False requested_store
          empty_panel)) = ''Request Declined'' \<and>
   friendships (fst (snd (handleFriendRequest quiet_env (Some ''u2'') ''r9'' False
          requested_store empty_panel))) = [request_row Pending]"
proof -
  have h: "\<forall>r \<in> set (friendships requested_store). f_id r \<noteq> ''r9''"
    by (simp add: requested_store_eq request_row_def)
  show ?thesis
    using respond_unknown_id [OF h, of "quiet_env\<lparr>write_fault := Some ''offline''\<rparr>"
            "Some ''u2''" False empty_panel]
      respond_unknown_id [OF h, of quiet_env "Some ''u2''" False empty_panel]
    by (simp add: quiet_env_def requested_store_eq request_row_def)
qed

text \<open>
  C8 as stated fails: answering a request whose id resolves to no row, on a remote side
  that accepts the update, ends with the success toast \<open>Friend Added\<close>, not with an
  error.
\<close>

theorem respond_unknown_id_reports_success:
  "fst (handleFriendRequest quiet_env (Some ''u2'') ''r9'' True empty_store empty_panel) =
     \<lparr>title = ''Friend Added'', description = ''You are now friends!'', variant = Default\<rparr>"
  by (simp add: handleFriendRequest_def quiet_env_def empty_store_def empty_panel_def
        update_friendship_status_def Let_def)

section \<open>Failures of remote writes\<close>

lemma uploadFile_failure:
  "upload_fault env = Some err \<Longrightarrow> uploadFile env user fl db = (None, db)"
  by (simp add: uploadFile_def Let_def)

lemma uploadFile_success:
  "upload_fault env = None \<Longrightarrow>
   \<exists>url path. url \<noteq> [] \<and>
     uploadFile env user fl db = (Some url, db\<lparr>chat_media := chat_media db @ [(path, fl)]\<rparr>)"
proof -
  assume up: "upload_fault env = None"
  let ?path = "u_id user @ ''/'' @ string_of_nat (date_now env) @ ''.'' @
                 file_ext (file_name_of fl)"
  have n: "storage_url env @ ?path \<noteq> []"
    by simp
  have e: "uploadFile env user fl db =
      (Some (storage_url env @ ?path), db\<lparr>chat_media := chat_media db @ [(?path, fl)]\<rparr>)"
    using up by (simp add: uploadFile_def Let_def)
  show ?thesis
    using n e by (intro exI conjI) assumption+
qed

text \<open>What a send that fails at the message insert leaves in the store: the uploaded
  attachment, if there was one.\<close>

lemma sendMessage_write_insert_fails:
  assumes "write_fault env = Some e"
    and "selectedFile w = None \<or> upload_fault env = None"
  shows "\<exists>db'. sendMessage_write env user friend w db = (Inl e, db') \<and>
           friendships db' = friendships db \<and> messages_table db' = messages_table db \<and>
           notifications_table db' = notifications_table db \<and>
           (selectedFile w = None \<longrightarrow> db' = db) \<and>
           (\<forall>fl. selectedFile w = Some fl \<longrightarrow>
              (\<exists>path. chat_media db' = chat_media db @ [(path, fl)]))"
proof (cases "selectedFile w")
  case None
  with assms show ?thesis by (simp add: sendMessage_write_def)
next
  case (Some fl)
  with assms have up: "upload_fault env = None" by simp
  from uploadFile_success [OF up, of user fl db] obtain url path where
    u: "url \<noteq> []"
      "uploadFile env user fl db = (Some url, db\<lparr>chat_media := chat_media db @ [(path, fl)]\<rparr>)"
    by (elim exE conjE)
  with Some assms(1) show ?thesis by (simp add: sendMessage_write_def)
qed

text \<open>
  C9 (amended). When the primary write of a user action fails, the action reports the
  error, writes no row and leaves the local state as it was: for a friend request the
  friendship insert; for a send that passes the empty-input guard the upload of the
  attachment, after which the store is untouched, or the message insert, after which
  the tables are untouched and an attachment uploaded before it stays in the bucket.
  The follow-up notification insert is not checked: whether it fails or not, the action
  reports the same outcome.
\<close>

theorem primary_write_failure_is_reported:
  "(fst (select_friendship_between env uid a db) = None \<and> write_fault env = Some e \<longrightarrow>
      sendFriendRequest env uid a name db = (error_toast e, db)) \<and>
   (selectedFile w = Some fl \<and> upload_fault env = Some err \<longrightarrow>
      sendMessage env (Some user) (Some friend) w db =
        (Some (error_toast ''Failed to upload file''), w\<lparr>loading := False\<rparr>, db)) \<and>
   (\<not> (trim (newMessage w) = [] \<and> selectedFile w = None) \<and>
    (selectedFile w = None \<or> upload_fault env = None) \<and> write_fault env = Some e \<longrightarrow>
      (\<exists>db'. sendMessage env (Some user) (Some friend) w db =
               (Some (error_toast e), w\<lparr>loading := False\<rparr>, db') \<and>
             friendships db' = friendships db \<and> messages_table db' = messages_table db \<and>
             notifications_table db' = notifications_table db \<and>
             (selectedFile w = None \<longrightarrow> db' = db))) \<and>
   fst (sendFriendRequest (env\<lparr>notify_fault := nf\<rparr>) uid a name db) =
     fst (sendFriendRequest env uid a name db) \<and>
   fst (sendMessage (env\<lparr>notify_fault := nf\<rparr>) (Some user) (Some friend) w db) =
     fst (sendMessage env (Some user) (Some friend) w db)"
proof -
  have 1: "fst (select_friendship_between env uid a db) = None \<and> write_fault env = Some e \<longrightarrow>
      sendFriendRequest env uid a name db = (error_toast e, db)"
    by (simp add: sendFriendRequest_def)
  have 2: "selectedFile w = Some fl \<and> upload_fault env = Some err \<longrightarrow>
      sendMessage env (Some user) (Some friend) w db =
        (Some (error_toast ''Failed to upload file''), w\<lparr>loading := False\<rparr>, db)"
    by (simp add: sendMessage_def sendMessage_write_def uploadFile_failure)
  have 3: "\<not> (trim (newMessage w) = [] \<and> selectedFile w = None) \<and>
    (selectedFile w = None \<or> upload_fault env = None) \<and> write_fault env = Some e \<longrightarrow>
      (\<exists>db'. sendMessage env (Some user) (Some friend) w db =
               (Some (error_toast e), w\<lparr>loading := False\<rparr>, db') \<and>
             friendships db' = friendships db \<and> messages_table db' = messages_table db \<and>
             notifications_table db' = notifications_table db \<and>
             (selectedFile w = None \<longrightarrow> db' = db))"
  proof
    assume h: "\<not> (trim (newMessage w) = [] \<and> selectedFile w = None) \<and>
      (selectedFile w = None \<or> upload_fault env = None) \<and> write_fault env = Some e"
    then have wf: "write_fault env = Some e"
      and sf: "selectedFile w = None \<or> upload_fault env = None"
      by simp_all
    from sendMessage_write_insert_fails [OF wf sf, of user friend db]
    obtain db' where d: "sendMessage_write env user friend w db = (Inl e, db')"
        "friendships db' = friendships db" "messages_table db' = messages_table db"
        "notifications_table db' = notifications_table db"
        "selectedFile w = None \<longrightarrow> db' = db"
      by auto
    from h d(1) have "sendMessage env (Some user) (Some friend) w db =
        (Some (error_toast e), w\<lparr>loading := False\<rparr>, db')"
      by (auto simp: sendMessage_def)
    with d show "\<exists>db'. sendMessage env (Some user) (Some friend) w db =
               (Some (error_toast e), w\<lparr>loading := False\<rparr>, db') \<and>
             friendships db' = friendships db \<and> messages_table db' = messages_table db \<and>
             notifications_table db' = notifications_table db \<and>
             (selectedFile w = None \<longrightarrow> db' = db)"
      by (intro exI [where x = db']) simp
  qed
  have 4: "fst (sendFriendRequest (env\<lparr>notify_fault := nf\<rparr>) uid a name db) =
     fst (sendFriendRequest env uid a name db)"
    by (simp add: sendFriendRequest_def select_friendship_between_def Let_def
          split: option.splits)
  have w: "fst (sendMessage_write (env\<lparr>notify_fault := nf\<rparr>) user friend w db) =
           fst (sendMessage_write env user friend w db)"
    by (simp add: sendMessage_write_def uploadFile_def Let_def
          split: option.splits sum.splits prod.splits)
  have 5: "fst (sendMessage (env\<lparr>notify_fault := nf\<rparr>) (Some user) (Some friend) w db) =
     fst (sendMessage env (Some user) (Some friend) w db)"
    using w
    by (auto simp: sendMessage_def split: prod.splits sum.splits)
  show ?thesis
    using 1 2 3 4 5 by (intro conjI) assumption+
qed

theorem primary_write_failure_is_reported_witness:
  "fst (select_friendship_between (quiet_env\<lparr>write_fault := Some ''offline''\<rparr>)
     ''u1'' ''u2'' empty_store) = None \<and>
   sendFriendRequest (quiet_env\<lparr>write_fault := Some ''offline''\<rparr>) ''u1'' ''u2'' ''bob''
     empty_store = (error_toast ''offline'', empty_store) \<and>
   trim (newMessage hi_window) \<noteq> [] \<and> selectedFile hi_window = None \<and>
   sendMessage (quiet_env\<lparr>write_fault := Some ''offline''\<rparr>) (Some alice) (Some ''a'')
      hi_window empty_store = (Some (error_toast ''offline''), hi_window, empty_store) \<and>
   sendMessage upload_down_env (Some alice) (Some ''a'') gif_window empty_store =
     (Some (error_toast ''Failed to upload file''), gif_window, empty_store)"
proof -
  let ?env = "quiet_env\<lparr>write_fault := Some ''offline''\<rparr>"
  have s: "fst (select_friendship_between ?env ''u1'' ''u2'' empty_store) = None"
    by (simp add: select_friendship_between_def maybeSingle_def quiet_env_def empty_store_def)
  have f: "write_fault ?env = Some ''offline''"
    by simp
  have t: "trim (newMessage hi_window) \<noteq> []"
    using trim_hi by (simp add: hi_window_eq utf16_def)
  have n: "selectedFile hi_window = None"
    by (simp add: hi_window_eq)
  have l: "hi_window\<lparr>loading := False\<rparr> = hi_window"
    by (simp add: hi_window_eq)
  have g: "selectedFile gif_window = Some \<lparr>file_name_of = ''cat.gif'', file_type = ''image/gif''\<rparr>"
    by (simp add: gif_window_def)
  have u: "upload_fault upload_down_env = Some ''quota exceeded''"
    by (simp add: upload_down_env_def)
  have lg: "gif_window\<lparr>loading := False\<rparr> = gif_window"
    by (simp add: gif_window_def hi_window_eq)
  note inst = primary_write_failure_is_reported [where env = ?env and uid = "''u1''"
      and a = "''u2''" and db = empty_store and e = "''offline''" and name = "''bob''"
      and w = hi_window and user = alice and friend = "''a''"]
  note c1 = inst [THEN conjunct1, rule_format]
  note c3 = inst [THEN conjunct2, THEN conjunct2, THEN conjunct1, rule_format]
  have p1: "fst (select_friendship_between ?env ''u1'' ''u2'' empty_store) = None \<and>
      write_fault ?env = Some ''offline''"
    using s f by simp
  have 1: "sendFriendRequest ?env ''u1'' ''u2'' ''bob'' empty_store =
      (error_toast ''offline'', empty_store)"
    by (rule c1 [OF p1])
  have p3: "\<not> (trim (newMessage hi_window) = [] \<and> selectedFile hi_window = None) \<and>
      (selectedFile hi_window = None \<or> upload_fault ?env = None) \<and>
      write_fault ?env = Some ''offline''"
    using t n f by simp
  from c3 [OF p3] n
  have "\<exists>db'. sendMessage ?env (Some alice) (Some ''a'') hi_window empty_store =
      (Some (error_toast ''offline''), hi_window\<lparr>loading := False\<rparr>, db') \<and> db' = empty_store"
    by auto
  then have 2: "sendMessage ?env (Some alice) (Some ''a'') hi_window empty_store =
      (Some (error_toast ''offline''), hi_window, empty_store)"
    by (auto simp: l)
  have 3: "sendMessage upload_down_env (Some alice) (Some ''a'') gif_window empty_store =
     (Some (error_toast ''Failed to upload file''), gif_window, empty_store)"
    using primary_write_failure_is_reported
        [where env = upload_down_env and w = gif_window
          and fl = "\<lparr>file_name_of = ''cat.gif'', file_type = ''image/gif''\<rparr>"
          and err = "''quota exceeded''" and user = alice and friend = "''a''"
          and db = empty_store,
         THEN conjunct2, THEN conjunct1, rule_format, OF conjI [OF g u]]
    by (simp add: lg)
  show ?thesis
    using s 1 t n 2 3 by (intro conjI) assumption+
qed

text \<open>
  C9 as stated fails: the friendship insert succeeds, the notification insert for the
  target fails, and the request still reports \<open>Request Sent\<close>; the store holds the
  friendship and no notification.
\<close>

theorem notification_failure_reported_as_success:
  "sendFriendRequest (quiet_env\<lparr>notify_fault := Some ''permission denied''\<rparr>)
     ''u1'' ''u2'' ''bob'' empty_store =
   (\<lparr>title = ''Request Sent'', description = ''Friend request sent to bob!'',
     variant = Default\<rparr>,
    \<lparr>friendships = [request_row Pending], messages_table = [], notifications_table = [],
     chat_media = []\<rparr>)"
  by (simp add: sendFriendRequest_def select_friendship_between_def maybeSingle_def
        quiet_env_def empty_store_def insert_notification_def Let_def request_row_def)

section \<open>The life of a friendship row\<close>


















end
